theory Spec2Isabelle
  imports Complex_Main "HOL-Library.Sublist"
begin

section \<open>Data model of \<open>src/analysis.ts\<close>\<close>

text \<open>
  The wire format is JSON. A field that the payload may omit is an \<open>option\<close>
  (\<open>None\<close> is JavaScript's \<open>undefined\<close>); the wire point's \<open>file\<close> and
  \<open>line\<close> are always there. A JavaScript string is a \<open>string\<close>, a count is a
  \<open>nat\<close>, a line or column number an \<open>int\<close>, and the confidence (a JSON
  number, so never NaN) a \<open>real\<close>.
\<close>

datatype severity = Critical | High | Medium | Low

record Patterns =
  streaming :: "bool option"
  batching :: "bool option"
  retries :: "bool option"
  caching :: "bool option"
  fallback :: "bool option"

record Benchmark =
  yourValue :: "real option"
  benchmarkValue :: "real option"
  gap :: "string option"

record Issue =
  issue_type :: string
  severity :: severity
  title :: string
  description :: string
  impact :: "string option"
  issue_fix :: "string option"
  benchmark :: "Benchmark option"

record InferencePoint =
  point_id :: string
  point_file :: string
  line :: int
  column :: "int option"
  provider :: "string option"
  model :: "string option"
  framework :: "string option"
  patterns :: Patterns
  issues :: "Issue list"
  confidence :: real

record Summary =
  totalPoints :: nat
  criticalIssues :: nat
  warnings :: nat
  providers :: "string list"
  models :: "string list"

record Credits =
  consumed :: int
  remaining :: int

record AnalysisResult =
  version :: string
  result_file :: string
  analyzedAt :: string
  inferencePoints :: "InferencePoint list"
  summary :: Summary
  credits :: "Credits option"

text \<open>The wire side: \<open>ApiAnalysisResponse\<close> and \<open>ApiErrorResponse\<close>.\<close>

record ApiIssue =
  api_type :: string
  api_severity :: string
  headline :: string
  evidence :: string
  suggestedFix :: "string option"

record ApiPoint =
  api_id :: "string option"
  api_file :: string
  api_line :: int
  api_column :: "int option"
  api_provider :: "string option"
  api_model :: "string option"
  api_framework :: "string option"
  api_patterns :: "Patterns option"
  api_issues :: "ApiIssue list option"
  api_confidence :: "real option"

record ApiCredits =
  api_consumed :: int
  api_remaining :: int
  expiringSoon :: int

text \<open>
  Of \<open>response.analysis\<close> the code reads \<open>inferencePoints\<close> only; the wire
  summary is never looked at, so it is left out of the record.
\<close>

record ApiAnalysisResponse =
  success :: bool
  analysis_inferencePoints :: "ApiPoint list"
  api_credits :: "ApiCredits option"

record ApiErrorResponse =
  error_message :: string
  error_code :: "string option"
  error_hint :: "string option"

datatype error = Error string

section \<open>JavaScript primitives used by the code\<close>

text \<open>
  \<open>a || b\<close> on an optional string: a string is truthy when it is not empty,
  \<open>undefined\<close> is falsy.
\<close>

definition or_else :: "string option \<Rightarrow> string \<Rightarrow> string" where
  "or_else v d = (case v of None \<Rightarrow> d | Some s \<Rightarrow> if s \<noteq> [] then s else d)"

text \<open>
  \<open>Number.prototype.toString\<close> on an integer: the decimal digits, with a minus
  sign below zero (the plain decimal form JavaScript prints for every integer of
  magnitude below \<open>10^21\<close>, which covers all line numbers).
\<close>

fun digits :: "nat \<Rightarrow> string" where
  "digits n = (if n < 10 then [char_of (48 + n)]
               else digits (n div 10) @ [char_of (48 + n mod 10)])"

declare digits.simps [simp del]

definition toString :: "int \<Rightarrow> string" where
  "toString i = (if i < 0 then CHR ''-'' # digits (nat (- i)) else digits (nat i))"

text \<open>\<open>s.endsWith(t)\<close>.\<close>

definition endsWith :: "string \<Rightarrow> string \<Rightarrow> bool" where
  "endsWith s t = (length t \<le> length s \<and> drop (length s - length t) s = t)"

text \<open>
  \<open>s.split('/')\<close>: the pieces between the separators; the empty string gives
  one empty piece.
\<close>

fun split :: "char \<Rightarrow> string \<Rightarrow> string list" where
  "split sep [] = [[]]"
| "split sep (c # cs) =
     (if c = sep then [] # split sep cs
      else (case split sep cs of
              [] \<Rightarrow> [[c]]
            | piece # pieces \<Rightarrow> (c # piece) # pieces))"

text \<open>\<open>xs.pop()\<close> as an expression: the last element, \<open>undefined\<close> on an empty array.\<close>

definition pop :: "string list \<Rightarrow> string option" where
  "pop xs = (if xs = [] then None else Some (last xs))"

text \<open>
  \<open>s.trim()\<close> removes white space and line terminators from both ends. Of
  ECMAScript's set these are the code units that a \<open>char\<close> can hold: tab,
  line feed, vertical tab, form feed, carriage return, space and no-break space.
\<close>

definition isWhiteSpace :: "char \<Rightarrow> bool" where
  "isWhiteSpace c = (of_char c \<in> {9, 10, 11, 12, 13, 32, 160 :: nat})"

definition trim :: "string \<Rightarrow> string" where
  "trim s = rev (dropWhile isWhiteSpace (rev (dropWhile isWhiteSpace s)))"

text \<open>
  A JavaScript \<open>Set\<close> of strings, rendered by \<open>Array.from\<close>: the elements in
  insertion order, a second \<open>add\<close> of an element changing nothing.
\<close>

definition set_add :: "string \<Rightarrow> string list \<Rightarrow> string list" where
  "set_add x s = (if x \<in> set s then s else s @ [x])"

text \<open>
  A JavaScript \<open>Map\<close>: the entries in insertion order. \<open>set\<close> on a present key
  replaces the value where it stands, on a new key appends an entry.
\<close>

type_synonym ('k, 'v) jsmap = "('k \<times> 'v) list"

fun map_has :: "('k, 'v) jsmap \<Rightarrow> 'k \<Rightarrow> bool" where
  "map_has [] k = False"
| "map_has ((k', v) # m) k = (k' = k \<or> map_has m k)"

fun map_get :: "('k, 'v) jsmap \<Rightarrow> 'k \<Rightarrow> 'v option" where
  "map_get [] k = None"
| "map_get ((k', v) # m) k = (if k' = k then Some v else map_get m k)"

fun map_set :: "('k, 'v) jsmap \<Rightarrow> 'k \<Rightarrow> 'v \<Rightarrow> ('k, 'v) jsmap" where
  "map_set [] k v = [(k, v)]"
| "map_set ((k', v') # m) k v =
     (if k' = k then (k, v) # m else (k', v') # map_set m k v)"

section \<open>The token resolver\<close>

text \<open>
  \<open>getToken\<close> reads the setting \<open>peakinfer.token\<close> and the environment variable
  \<open>PEAKINFER_TOKEN\<close>; both are parameters here.
\<close>

definition getToken :: "string option \<Rightarrow> string option \<Rightarrow> string option" where
  "getToken settingsToken envToken =
     (case settingsToken of
        None \<Rightarrow> envToken
      | Some s \<Rightarrow> if s \<noteq> [] \<and> trim s \<noteq> [] then Some (trim s) else envToken)"

definition missing_token_message :: string where
  "missing_token_message =
     ''PeakInfer token not configured. Set it in VS Code settings (peakinfer.token) or PEAKINFER_TOKEN environment variable. Get your token at https://peakinfer.com/dashboard''"

definition validateToken :: "string option \<Rightarrow> string option \<Rightarrow> error + string" where
  "validateToken settingsToken envToken =
     (case getToken settingsToken envToken of
        None \<Rightarrow> Inl (Error missing_token_message)
      | Some token \<Rightarrow> if token = [] then Inl (Error missing_token_message) else Inr token)"

section \<open>The response normalizer\<close>

definition mapSeverity :: "string \<Rightarrow> severity" where
  "mapSeverity s =
     (if s = ''critical'' then Critical
      else if s = ''warning'' then High
      else if s = ''info'' then Low
      else Medium)"

definition transformIssue :: "ApiIssue \<Rightarrow> Issue" where
  "transformIssue issue =
     \<lparr> issue_type = api_type issue,
       severity = mapSeverity (api_severity issue),
       title = headline issue,
       description = evidence issue,
       impact = None,
       issue_fix = suggestedFix issue,
       benchmark = None \<rparr>"

definition empty_patterns :: Patterns where
  "empty_patterns =
     \<lparr> streaming = None, batching = None, retries = None, caching = None, fallback = None \<rparr>"

definition transformInferencePoint :: "ApiPoint \<Rightarrow> InferencePoint" where
  "transformInferencePoint apiPoint =
     \<lparr> point_id = or_else (api_id apiPoint)
                    (api_file apiPoint @ '':'' @ toString (api_line apiPoint)),
       point_file = api_file apiPoint,
       line = api_line apiPoint,
       column = api_column apiPoint,
       provider = api_provider apiPoint,
       model = api_model apiPoint,
       framework = api_framework apiPoint,
       patterns = (case api_patterns apiPoint of None \<Rightarrow> empty_patterns | Some p \<Rightarrow> p),
       issues = map transformIssue
                  (case api_issues apiPoint of None \<Rightarrow> [] | Some is \<Rightarrow> is),
       confidence = (case api_confidence apiPoint of
                       None \<Rightarrow> 9 / 10
                     | Some c \<Rightarrow> if c \<noteq> 0 then c else 9 / 10) \<rparr>"

section \<open>The result aggregator\<close>

text \<open>The four variables that the loop of \<open>createResultFromPoints\<close> updates.\<close>

record Scan =
  scan_providers :: "string list"
  scan_models :: "string list"
  scan_criticalIssues :: nat
  scan_warnings :: nat

text \<open>\<open>if (v) s.add(v)\<close> on an optional string.\<close>

definition add_if_truthy :: "string option \<Rightarrow> string list \<Rightarrow> string list" where
  "add_if_truthy v s =
     (case v of None \<Rightarrow> s | Some x \<Rightarrow> if x \<noteq> [] then set_add x s else s)"

definition scan_issue :: "Scan \<Rightarrow> Issue \<Rightarrow> Scan" where
  "scan_issue st issue =
     (if severity issue = Critical
        then st\<lparr>scan_criticalIssues := scan_criticalIssues st + 1\<rparr>
      else if severity issue = High \<or> severity issue = Medium
        then st\<lparr>scan_warnings := scan_warnings st + 1\<rparr>
      else st)"

fun scan_issues :: "Scan \<Rightarrow> Issue list \<Rightarrow> Scan" where
  "scan_issues st [] = st"
| "scan_issues st (issue # rest) = scan_issues (scan_issue st issue) rest"

definition scan_point :: "Scan \<Rightarrow> InferencePoint \<Rightarrow> Scan" where
  "scan_point st point =
     scan_issues
       (st\<lparr>scan_providers := add_if_truthy (provider point) (scan_providers st),
           scan_models := add_if_truthy (model point) (scan_models st)\<rparr>)
       (issues point)"

fun scan_points :: "Scan \<Rightarrow> InferencePoint list \<Rightarrow> Scan" where
  "scan_points st [] = st"
| "scan_points st (point # rest) = scan_points (scan_point st point) rest"

definition scan_start :: Scan where
  "scan_start =
     \<lparr> scan_providers = [], scan_models = [], scan_criticalIssues = 0, scan_warnings = 0 \<rparr>"

text \<open>
  \<open>now\<close> is what \<open>new Date().toISOString()\<close> returns at the call.
\<close>

definition createResultFromPoints ::
    "string \<Rightarrow> string \<Rightarrow> InferencePoint list \<Rightarrow> ApiCredits option \<Rightarrow> AnalysisResult" where
  "createResultFromPoints now fileName points cr =
     (let st = scan_points scan_start points in
      \<lparr> version = ''1.0'',
        result_file = fileName,
        analyzedAt = now,
        inferencePoints = points,
        summary =
          \<lparr> totalPoints = length points,
            criticalIssues = scan_criticalIssues st,
            warnings = scan_warnings st,
            providers = scan_providers st,
            models = scan_models st \<rparr>,
        credits =
          (case cr of
             None \<Rightarrow> None
           | Some c \<Rightarrow> Some \<lparr> consumed = api_consumed c, remaining = api_remaining c \<rparr>) \<rparr>)"

section \<open>The single-file path\<close>

definition leaf_name :: "string \<Rightarrow> string" where
  "leaf_name fileName = or_else (pop (split CHR ''/'' fileName)) []"

definition transformApiResponse :: "string \<Rightarrow> string \<Rightarrow> ApiAnalysisResponse \<Rightarrow> AnalysisResult" where
  "transformApiResponse now fileName response =
     createResultFromPoints now fileName
       (map transformInferencePoint
          (filter (\<lambda>p. api_file p = fileName \<or> endsWith (api_file p) (leaf_name fileName))
             (analysis_inferencePoints response)))
       (api_credits response)"

text \<open>
  The message of the error thrown for a body that has the key \<open>error\<close>.
\<close>

definition remote_error :: "ApiErrorResponse \<Rightarrow> error" where
  "remote_error r =
     Error (error_message r @
            (case error_hint r of
               None \<Rightarrow> []
             | Some h \<Rightarrow> if h \<noteq> [] then '' ('' @ h @ '')'' else []))"

text \<open>
  \<open>analyzeFile\<close> and \<open>analyzeWorkspace\<close> read the settings, the environment, the
  documents and the clock, and make one request. The two token sources, the parsed
  body of the answer (\<open>Inl\<close> when it has the key \<open>error\<close>) and the clock (its
  \<open>n\<close>-th reading, counted from 0) are parameters; a thrown \<open>Error\<close> is \<open>Inl\<close>.
\<close>

definition analyzeFile ::
    "string option \<Rightarrow> string option \<Rightarrow> string \<Rightarrow> ApiErrorResponse + ApiAnalysisResponse
       \<Rightarrow> (nat \<Rightarrow> string) \<Rightarrow> error + AnalysisResult" where
  "analyzeFile settingsToken envToken fileName response clock =
     (case validateToken settingsToken envToken of
        Inl e \<Rightarrow> Inl e
      | Inr token \<Rightarrow>
          (case response of
             Inl err \<Rightarrow> Inl (remote_error err)
           | Inr r \<Rightarrow> Inr (transformApiResponse (clock 0) fileName r)))"

section \<open>The workspace path\<close>

text \<open>
  One turn of the grouping loop: a new file gets an empty array, then the
  normalized point is pushed on the file's array (which changes the entry where
  it stands).
\<close>

definition group_point ::
    "(string, InferencePoint list) jsmap \<Rightarrow> ApiPoint \<Rightarrow> (string, InferencePoint list) jsmap" where
  "group_point resultsByFile point =
     (let fileName = api_file point;
          m = (if \<not> map_has resultsByFile fileName
               then map_set resultsByFile fileName [] else resultsByFile)
      in (case map_get m fileName of
            None \<Rightarrow> m
          | Some points \<Rightarrow> map_set m fileName (points @ [transformInferencePoint point])))"

fun group_points ::
    "(string, InferencePoint list) jsmap \<Rightarrow> ApiPoint list \<Rightarrow> (string, InferencePoint list) jsmap" where
  "group_points resultsByFile [] = resultsByFile"
| "group_points resultsByFile (point # rest) = group_points (group_point resultsByFile point) rest"

text \<open>
  The loop over the entries of the map; each result made reads the clock once.
\<close>

fun build_results ::
    "(nat \<Rightarrow> string) \<Rightarrow> ApiCredits option \<Rightarrow> (string, InferencePoint list) jsmap
       \<Rightarrow> AnalysisResult list \<Rightarrow> AnalysisResult list" where
  "build_results clock cr [] results = results"
| "build_results clock cr ((fileName, points) # rest) results =
     build_results clock cr rest
       (if length points > 0
        then results @ [createResultFromPoints (clock (length results)) fileName points cr]
        else results)"

definition analyzeWorkspace ::
    "string option \<Rightarrow> string option \<Rightarrow> ApiErrorResponse + ApiAnalysisResponse
       \<Rightarrow> (nat \<Rightarrow> string) \<Rightarrow> error + AnalysisResult list" where
  "analyzeWorkspace settingsToken envToken response clock =
     (case validateToken settingsToken envToken of
        Inl e \<Rightarrow> Inl e
      | Inr token \<Rightarrow>
          (case response of
             Inl err \<Rightarrow> Inl (remote_error err)
           | Inr r \<Rightarrow>
               Inr (build_results clock (api_credits r)
                      (group_points [] (analysis_inferencePoints r)) [])))"

section \<open>The specification's words\<close>

text \<open>
  The severity table as the specification gives it: three rows and a default.
\<close>

definition severity_table :: "(string \<times> severity) list" where
  "severity_table = [(''critical'', Critical), (''warning'', High), (''info'', Low)]"

definition remap :: "string \<Rightarrow> severity" where
  "remap s = (case map_of severity_table s of Some v \<Rightarrow> v | None \<Rightarrow> Medium)"

text \<open>
  The distinct elements of a list in the order of their first appearance.
\<close>

fun first_appearances :: "'a list \<Rightarrow> 'a list" where
  "first_appearances [] = []"
| "first_appearances (x # xs) = x # removeAll x (first_appearances xs)"

text \<open>A wire point that carries \<open>file\<close> and \<open>line\<close> and nothing else.\<close>

definition sparse_point :: "string \<Rightarrow> int \<Rightarrow> ApiPoint" where
  "sparse_point f l =
     \<lparr> api_id = None, api_file = f, api_line = l, api_column = None,
       api_provider = None, api_model = None, api_framework = None,
       api_patterns = None, api_issues = None, api_confidence = None \<rparr>"

text \<open>A wire issue of a given severity.\<close>

definition issue_of_severity :: "string \<Rightarrow> ApiIssue" where
  "issue_of_severity sev =
     \<lparr> api_type = ''cost'', api_severity = sev, headline = ''X'', evidence = ''Y'',
       suggestedFix = None \<rparr>"

text \<open>A wire point with a provider, a model and issues of the given severities.\<close>

definition wire_point :: "string option \<Rightarrow> string option \<Rightarrow> string list \<Rightarrow> ApiPoint" where
  "wire_point prov mdl sevs =
     (sparse_point ''a.py'' 10)
       \<lparr> api_provider := prov, api_model := mdl,
         api_issues := Some (map issue_of_severity sevs) \<rparr>"

text \<open>A successful response with one sparse point for each of the given file tags.\<close>

definition sample_response :: "string list \<Rightarrow> ApiAnalysisResponse" where
  "sample_response files =
     \<lparr> success = True,
       analysis_inferencePoints = map (\<lambda>f. sparse_point f 10) files,
       api_credits = None \<rparr>"

text \<open>
  What the optional fields of a sequence of points contribute to a deduplicated
  set: the values that are present and not the empty string.
\<close>

definition contributed :: "string option list \<Rightarrow> string set" where
  "contributed vs = {x. x \<noteq> [] \<and> Some x \<in> set vs}"

text \<open>
  Grouping by file tag as the specification describes it: one entry for each
  distinct tag, in the order of first appearance, holding the normalized points
  of that tag in source order.
\<close>

definition grouped :: "ApiPoint list \<Rightarrow> (string, InferencePoint list) jsmap" where
  "grouped ps =
     map (\<lambda>k. (k, map transformInferencePoint (filter (\<lambda>p. api_file p = k) ps)))
       (first_appearances (map api_file ps))"

text \<open>The file and the points of a result.\<close>

definition entry_of :: "AnalysisResult \<Rightarrow> string \<times> InferencePoint list" where
  "entry_of r = (result_file r, inferencePoints r)"

section \<open>Severity remapping\<close>

lemma mapSeverity_remap: "mapSeverity s = remap s"
  by (simp add: mapSeverity_def remap_def severity_table_def)

text \<open>
  Claim C1. Normalization remaps the severity of every wire issue by the fixed
  table: \<open>critical\<close> to critical, \<open>warning\<close> to high, \<open>info\<close> to low, and any
  other wire value to medium; the severities of a normalized point's issues are
  the table's images of the wire severities, in order.
\<close>

theorem mapSeverity_table:
  "mapSeverity ''critical'' = Critical \<and> mapSeverity ''warning'' = High \<and>
   mapSeverity ''info'' = Low \<and>
   (s \<noteq> ''critical'' \<and> s \<noteq> ''warning'' \<and> s \<noteq> ''info'' \<longrightarrow> mapSeverity s = Medium) \<and>
   severity (transformIssue i) = remap (api_severity i) \<and>
   map severity (issues (transformInferencePoint p)) =
     map (\<lambda>i. remap (api_severity i)) (case api_issues p of None \<Rightarrow> [] | Some is \<Rightarrow> is)"
  by (simp add: mapSeverity_remap transformIssue_def transformInferencePoint_def
      remap_def severity_table_def comp_def)

theorem mapSeverity_table_witness:
  "mapSeverity ''debug'' = Medium \<and>
   severity (transformIssue (issue_of_severity ''warning'')) = High \<and>
   map severity (issues (transformInferencePoint
     ((sparse_point ''a.py'' 10)
        \<lparr>api_issues := Some (map issue_of_severity
           [''critical'', ''warning'', ''info'', ''fatal''])\<rparr>)))
   = [Critical, High, Low, Medium]"
  using mapSeverity_table [of "''debug''" "issue_of_severity ''warning''"
      "(sparse_point ''a.py'' 10)
        \<lparr>api_issues := Some (map issue_of_severity
           [''critical'', ''warning'', ''info'', ''fatal''])\<rparr>"]
  by (simp add: sparse_point_def issue_of_severity_def remap_def severity_table_def)

section \<open>Defaults of the normalizer\<close>

text \<open>
  Claim C2. The normalized confidence is the wire confidence whenever the payload
  carries one. The code writes \<open>apiPoint.confidence || 0.9\<close>, so a wire
  confidence of 0, which the payload carries and which lies in the unit interval,
  is replaced by 0.9: the evaluation below is the code at that input.
\<close>

theorem confidence_zero_replaced:
  "confidence (transformInferencePoint
     \<lparr> api_id = Some ''p1'', api_file = ''a.py'', api_line = 10, api_column = None,
       api_provider = Some ''openai'', api_model = Some ''gpt-4'', api_framework = None,
       api_patterns = None, api_issues = Some [], api_confidence = Some 0 \<rparr>) = 9 / 10"
  by (simp add: transformInferencePoint_def)



text \<open>
  Claim C9. On a wire point that carries only \<open>file\<close> and \<open>line\<close> the normalizer
  returns a point (the function has no failing branch): its patterns are the
  mapping with no key, its issues the empty sequence, and column, provider, model
  and framework stay absent.
\<close>

theorem transformInferencePoint_sparse:
  "transformInferencePoint (sparse_point f l)
   = \<lparr> point_id = f @ '':'' @ toString l, point_file = f, line = l, column = None,
       provider = None, model = None, framework = None,
       patterns = \<lparr> streaming = None, batching = None, retries = None,
                    caching = None, fallback = None \<rparr>,
       issues = [], confidence = 9 / 10 \<rparr>"
  by (simp add: transformInferencePoint_def sparse_point_def or_else_def empty_patterns_def)

theorem transformInferencePoint_sparse_witness:
  "transformInferencePoint (sparse_point ''a.py'' 10)
   = \<lparr> point_id = ''a.py:10'', point_file = ''a.py'', line = 10, column = None,
       provider = None, model = None, framework = None,
       patterns = \<lparr> streaming = None, batching = None, retries = None,
                    caching = None, fallback = None \<rparr>,
       issues = [], confidence = 9 / 10 \<rparr>"
proof -
  have ten: "toString 10 = ''10''"
    by code_simp
  show ?thesis
    using transformInferencePoint_sparse [of "''a.py''" 10] ten by simp
qed

section \<open>The token resolver's precedence\<close>

lemma all_dropWhile: "(\<forall>x \<in> set (dropWhile P s). P x) \<longleftrightarrow> (\<forall>x \<in> set s. P x)"
  by (induction s) auto

lemma trim_Nil_iff: "trim s = [] \<longleftrightarrow> (\<forall>c \<in> set s. isWhiteSpace c)"
  by (simp add: trim_def all_dropWhile)

text \<open>
  Claim C6. The resolver returns the trimmed setting when that is not empty after
  trimming; when the setting is absent or empty after trimming it returns the
  environment's value; in particular a setting of white space only (or the empty
  string) with the environment variable set gives the environment's value.
\<close>

theorem getToken_precedence:
  "(trim s \<noteq> [] \<longrightarrow> getToken (Some s) env = Some (trim s)) \<and>
   (trim s = [] \<longrightarrow> getToken (Some s) env = env) \<and>
   getToken None env = env \<and>
   ((\<forall>c \<in> set s. isWhiteSpace c) \<longrightarrow> getToken (Some s) (Some e) = Some e)"
  by (auto simp add: getToken_def trim_Nil_iff)

theorem getToken_precedence_witness:
  "trim ''  tok '' \<noteq> [] \<and> getToken (Some ''  tok '') (Some ''envtok'') = Some ''tok'' \<and>
   trim '' '' = [] \<and> getToken (Some '' '') None = None \<and>
   getToken None (Some ''envtok'') = Some ''envtok'' \<and>
   getToken (Some '''') (Some ''envtok'') = Some ''envtok'' \<and>
   getToken (Some ''   '') (Some ''envtok'') = Some ''envtok''"
proof -
  have a: "trim ''  tok '' = ''tok''"
    by code_simp
  have b: "trim '' '' = []"
    by code_simp
  have c: "\<forall>c \<in> set ''''. isWhiteSpace c"
    by simp
  have d: "\<forall>c \<in> set ''   ''. isWhiteSpace c"
    by (simp add: isWhiteSpace_def)
  show ?thesis
    using getToken_precedence [of "''  tok ''" "Some ''envtok''"]
      getToken_precedence [of "'' ''" None]
      getToken_precedence [of "''''" "Some ''envtok''" "''envtok''"]
      getToken_precedence [of "''   ''" "Some ''envtok''" "''envtok''"] a b c d
    by simp
qed

section \<open>The summary of a result\<close>

lemma scan_issues_fields:
  "scan_criticalIssues (scan_issues st is) =
     scan_criticalIssues st + length (filter (\<lambda>i. severity i = Critical) is)"
  "scan_warnings (scan_issues st is) =
     scan_warnings st + length (filter (\<lambda>i. severity i = High \<or> severity i = Medium) is)"
  "scan_providers (scan_issues st is) = scan_providers st"
  "scan_models (scan_issues st is) = scan_models st"
  by (induction "is" arbitrary: st; simp add: scan_issue_def)+

lemma scan_points_counts:
  "scan_criticalIssues (scan_points st pts) =
     scan_criticalIssues st + length (filter (\<lambda>i. severity i = Critical) (concat (map issues pts)))"
  "scan_warnings (scan_points st pts) =
     scan_warnings st +
       length (filter (\<lambda>i. severity i = High \<or> severity i = Medium) (concat (map issues pts)))"
  by (induction pts arbitrary: st; simp add: scan_point_def scan_issues_fields)+

lemma count_partition:
  "length (filter (\<lambda>i. severity i = Critical) is) + length (filter (\<lambda>i. severity i = Low) is)
     \<le> length is"
  by (induction "is") auto

text \<open>
  Claim C4. Aggregation counts as \<open>criticalIssues\<close> the issues, over all points
  and all issues of each point, whose severity is critical, and as \<open>warnings\<close>
  those whose severity is high or medium; issues of severity low are in neither
  count, so \<open>criticalIssues\<close> plus the number of low issues is at most the
  number of issues.
\<close>

theorem summary_counts:
  "criticalIssues (summary (createResultFromPoints now f pts cr)) =
     length (filter (\<lambda>i. severity i = Critical) (concat (map issues pts))) \<and>
   warnings (summary (createResultFromPoints now f pts cr)) =
     length (filter (\<lambda>i. severity i = High \<or> severity i = Medium) (concat (map issues pts))) \<and>
   criticalIssues (summary (createResultFromPoints now f pts cr)) +
     length (filter (\<lambda>i. severity i = Low) (concat (map issues pts)))
     \<le> length (concat (map issues pts))"
  using count_partition [of "concat (map issues pts)"]
  by (simp add: createResultFromPoints_def Let_def scan_points_counts scan_start_def)

theorem summary_counts_witness:
  "criticalIssues (summary (createResultFromPoints ''t'' ''a.py''
      [transformInferencePoint (wire_point None None [''critical''])] None)) = 1 \<and>
   warnings (summary (createResultFromPoints ''t'' ''a.py''
      [transformInferencePoint (wire_point None None [''critical''])] None)) = 0 \<and>
   criticalIssues (summary (createResultFromPoints ''t'' ''a.py''
      (map transformInferencePoint
         [wire_point None None [''critical'', ''warning'', ''info'', ''fatal''],
          wire_point None None [''info'', ''critical'']]) None)) = 2 \<and>
   warnings (summary (createResultFromPoints ''t'' ''a.py''
      (map transformInferencePoint
         [wire_point None None [''critical'', ''warning'', ''info'', ''fatal''],
          wire_point None None [''info'', ''critical'']]) None)) = 2"
  using summary_counts [of "''t''" "''a.py''"
      "[transformInferencePoint (wire_point None None [''critical''])]" None]
    summary_counts [of "''t''" "''a.py''"
      "map transformInferencePoint
         [wire_point None None [''critical'', ''warning'', ''info'', ''fatal''],
          wire_point None None [''info'', ''critical'']]" None]
  by (simp add: wire_point_def sparse_point_def issue_of_severity_def
      transformInferencePoint_def transformIssue_def mapSeverity_def)

section \<open>Providers and models\<close>

lemma add_if_truthy_set:
  "set (add_if_truthy v s) = set s \<union> contributed [v]"
  by (auto simp add: add_if_truthy_def set_add_def contributed_def split: option.splits)

lemma add_if_truthy_distinct: "distinct s \<Longrightarrow> distinct (add_if_truthy v s)"
  by (auto simp add: add_if_truthy_def set_add_def split: option.splits)

lemma contributed_Cons: "contributed (v # vs) = contributed [v] \<union> contributed vs"
  by (auto simp add: contributed_def)

lemma scan_point_sets:
  "set (scan_providers (scan_point st p)) = set (scan_providers st) \<union> contributed [provider p]"
  "set (scan_models (scan_point st p)) = set (scan_models st) \<union> contributed [model p]"
  by (simp_all add: scan_point_def scan_issues_fields add_if_truthy_set)

lemma scan_points_providers:
  "set (scan_providers (scan_points st pts)) =
     set (scan_providers st) \<union> contributed (map provider pts)"
proof (induction pts arbitrary: st)
  case Nil
  show ?case by (simp add: contributed_def)
next
  case (Cons p pts)
  show ?case
    using Cons.IH [of "scan_point st p"] scan_point_sets(1) [of st p]
      contributed_Cons [of "provider p" "map provider pts"]
    by auto
qed

lemma scan_points_models:
  "set (scan_models (scan_points st pts)) =
     set (scan_models st) \<union> contributed (map model pts)"
proof (induction pts arbitrary: st)
  case Nil
  show ?case by (simp add: contributed_def)
next
  case (Cons p pts)
  show ?case
    using Cons.IH [of "scan_point st p"] scan_point_sets(2) [of st p]
      contributed_Cons [of "model p" "map model pts"]
    by auto
qed

lemma scan_points_distinct:
  "distinct (scan_providers st) \<Longrightarrow> distinct (scan_providers (scan_points st pts))"
  "distinct (scan_models st) \<Longrightarrow> distinct (scan_models (scan_points st pts))"
  by (induction pts arbitrary: st;
      simp add: scan_point_def scan_issues_fields add_if_truthy_distinct)+

text \<open>
  Claim C5. Aggregation builds \<open>providers\<close> and \<open>models\<close> without duplicates,
  and a point contributes its provider (its model) exactly when the field is
  present and not the empty string.
\<close>

theorem summary_sets:
  "distinct (providers (summary (createResultFromPoints now f pts cr))) \<and>
   distinct (models (summary (createResultFromPoints now f pts cr))) \<and>
   set (providers (summary (createResultFromPoints now f pts cr))) =
     {x. x \<noteq> [] \<and> Some x \<in> set (map provider pts)} \<and>
   set (models (summary (createResultFromPoints now f pts cr))) =
     {x. x \<noteq> [] \<and> Some x \<in> set (map model pts)}"
  by (simp add: createResultFromPoints_def Let_def scan_points_providers scan_points_models scan_points_distinct
      scan_start_def contributed_def del: set_map)

theorem summary_sets_witness:
  "distinct (providers (summary (createResultFromPoints ''t'' ''a.py''
      (map transformInferencePoint
         [wire_point (Some ''openai'') None [], wire_point (Some '''') (Some ''gpt-4'') [],
          wire_point (Some ''anthropic'') (Some ''gpt-4'') [],
          wire_point (Some ''openai'') (Some '''') []]) None))) \<and>
   set (providers (summary (createResultFromPoints ''t'' ''a.py''
      (map transformInferencePoint
         [wire_point (Some ''openai'') None [], wire_point (Some '''') (Some ''gpt-4'') [],
          wire_point (Some ''anthropic'') (Some ''gpt-4'') [],
          wire_point (Some ''openai'') (Some '''') []]) None)))
     = {''openai'', ''anthropic''} \<and>
   set (models (summary (createResultFromPoints ''t'' ''a.py''
      (map transformInferencePoint
         [wire_point (Some ''openai'') None [], wire_point (Some '''') (Some ''gpt-4'') [],
          wire_point (Some ''anthropic'') (Some ''gpt-4'') [],
          wire_point (Some ''openai'') (Some '''') []]) None)))
     = {''gpt-4''}"
  using summary_sets [of "''t''" "''a.py''"
      "map transformInferencePoint
         [wire_point (Some ''openai'') None [], wire_point (Some '''') (Some ''gpt-4'') [],
          wire_point (Some ''anthropic'') (Some ''gpt-4'') [],
          wire_point (Some ''openai'') (Some '''') []]" None]
  by (auto simp add: wire_point_def sparse_point_def transformInferencePoint_def)

section \<open>Grouping by file\<close>

lemma first_appearances_set [simp]: "set (first_appearances xs) = set xs"
  by (induction xs) auto

lemma first_appearances_distinct [simp]: "distinct (first_appearances xs)"
  by (induction xs) (auto simp add: distinct_removeAll)

lemma first_appearances_snoc:
  "first_appearances (xs @ [x]) =
     (if x \<in> set xs then first_appearances xs else first_appearances xs @ [x])"
  by (induction xs) auto

lemma map_has_keyed: "map_has (map (\<lambda>k. (k, g k)) ks) k \<longleftrightarrow> k \<in> set ks"
  by (induction ks) auto

lemma map_get_keyed:
  "map_get (map (\<lambda>k. (k, g k)) ks) k = (if k \<in> set ks then Some (g k) else None)"
  by (induction ks) auto

lemma map_set_keyed:
  "distinct ks \<Longrightarrow>
   map_set (map (\<lambda>k. (k, g k)) ks) k v =
     (if k \<in> set ks then map (\<lambda>k'. (k', if k' = k then v else g k')) ks
      else map (\<lambda>k. (k, g k)) ks @ [(k, v)])"
  by (induction ks) auto

lemma map_set_new: "\<not> map_has m k \<Longrightarrow> map_set m k v = m @ [(k, v)]"
  by (induction m) auto

lemma map_get_append_new: "\<not> map_has m k \<Longrightarrow> map_get (m @ [(k, v)]) k = Some v"
  by (induction m) auto

lemma map_set_append_new:
  "\<not> map_has m k \<Longrightarrow> map_set (m @ [(k, v)]) k v' = m @ [(k, v')]"
  by (induction m) auto

lemma map_get_map_set: "map_get (map_set m k v) k = Some v"
  by (induction m) auto

lemma map_has_map_get: "map_has m k \<longleftrightarrow> map_get m k \<noteq> None"
  by (induction m) auto

text \<open>
  In \<open>group_point\<close> the entry read back after the \<open>has\<close>/\<open>set\<close> step is
  always there, so the \<open>None\<close> branch of the model (a \<open>TypeError\<close> in the
  code) is never taken.
\<close>

lemma group_point_entry_present:
  "map_get (if \<not> map_has m k then map_set m k [] else m) k \<noteq> None"
  by (simp add: map_get_map_set map_has_map_get)

lemma group_point_grouped: "group_point (grouped qs) p = grouped (qs @ [p])"
proof (cases "api_file p \<in> set (map api_file qs)")
  case True
  then show ?thesis
    by (simp add: group_point_def grouped_def map_has_keyed map_get_keyed map_set_keyed
        first_appearances_snoc Let_def)
next
  case False
  then have new: "\<not> map_has (grouped qs) (api_file p)"
    by (simp add: grouped_def map_has_keyed)
  have none: "filter (\<lambda>q. api_file q = api_file p) qs = []"
    using False by (force simp add: filter_empty_conv image_iff)
  have "group_point (grouped qs) p = grouped qs @ [(api_file p, [transformInferencePoint p])]"
    using new
    by (simp add: group_point_def Let_def map_set_new map_get_append_new map_set_append_new)
  also have "\<dots> = grouped (qs @ [p])"
    using False none by (auto simp add: grouped_def first_appearances_snoc)
  finally show ?thesis .
qed

lemma group_points_grouped: "group_points (grouped qs) ps = grouped (qs @ ps)"
proof (induction ps arbitrary: qs)
  case Nil
  show ?case by simp
next
  case (Cons p ps)
  show ?case
    using Cons.IH [of "qs @ [p]"] by (simp add: group_point_grouped)
qed

lemma group_points_start: "group_points [] ps = grouped ps"
  using group_points_grouped [of "[]" ps] by (simp add: grouped_def)

lemma grouped_nonempty: "(f, ps) \<in> set (grouped pts) \<Longrightarrow> ps \<noteq> []"
  by (auto simp add: grouped_def filter_empty_conv)

lemma build_results_entries:
  "map entry_of (build_results clock cr m rs) =
     map entry_of rs @ filter (\<lambda>e. snd e \<noteq> []) m"
  by (induction m arbitrary: rs)
     (auto simp add: entry_of_def createResultFromPoints_def Let_def)

lemma build_results_members:
  "r \<in> set (build_results clock cr m rs) \<Longrightarrow>
   r \<in> set rs \<or> (\<exists>t f ps. ps \<noteq> [] \<and> r = createResultFromPoints t f ps cr)"
proof (induction m arbitrary: rs)
  case Nil
  then show ?case by simp
next
  case (Cons e m)
  obtain f ps where e: "e = (f, ps)"
    by (cases e)
  show ?case
  proof (cases "ps = []")
    case True
    with Cons.prems have "r \<in> set (build_results clock cr m rs)"
      by (simp add: e)
    then show ?thesis
      by (rule Cons.IH)
  next
    case False
    let ?r = "createResultFromPoints (clock (length rs)) f ps cr"
    from False Cons.prems have "r \<in> set (build_results clock cr m (rs @ [?r]))"
      by (simp add: e)
    then have "r \<in> set (rs @ [?r]) \<or>
        (\<exists>t f ps. ps \<noteq> [] \<and> r = createResultFromPoints t f ps cr)"
      by (rule Cons.IH)
    with False show ?thesis
      by auto
  qed
qed

lemma createResultFromPoints_fields:
  "result_file (createResultFromPoints t f ps cr) = f"
  "inferencePoints (createResultFromPoints t f ps cr) = ps"
  "totalPoints (summary (createResultFromPoints t f ps cr)) = length ps"
  by (simp_all add: createResultFromPoints_def Let_def)

lemma workspace_entries:
  "map entry_of (build_results clock cr (group_points [] pts) []) = grouped pts"
proof -
  have "filter (\<lambda>e. snd e \<noteq> []) (grouped pts) = grouped pts"
    using grouped_nonempty [of _ _ pts] by (auto simp add: filter_id_conv)
  then show ?thesis
    by (simp add: build_results_entries group_points_start)
qed

lemma validateToken_settings: "validateToken (Some ''tok'') None = Inr ''tok''"
proof -
  have "trim ''tok'' = ''tok''"
    by code_simp
  then show ?thesis
    by (simp add: validateToken_def getToken_def)
qed

lemma point_file_transform [simp]: "point_file (transformInferencePoint p) = api_file p"
  by (simp add: transformInferencePoint_def)

lemma analyzeWorkspace_entries:
  "analyzeWorkspace st env (Inr r) clock = Inr results \<Longrightarrow>
   map entry_of results = grouped (analysis_inferencePoints r)"
  by (auto simp add: analyzeWorkspace_def workspace_entries split: sum.splits)

lemma grouped_keys: "map fst (grouped pts) = first_appearances (map api_file pts)"
  by (simp add: grouped_def comp_def)

lemma grouped_member:
  "(f, ps) \<in> set (grouped pts) \<Longrightarrow>
   ps = map transformInferencePoint (filter (\<lambda>p. api_file p = f) pts)"
  by (auto simp add: grouped_def)

lemma entries_files: "map fst (map entry_of rs) = map result_file rs"
  by (simp add: entry_of_def comp_def)

lemma entries_member: "r \<in> set rs \<Longrightarrow> (result_file r, inferencePoints r) \<in> set (map entry_of rs)"
  by (auto simp add: entry_of_def image_iff)

text \<open>
  Claim C7. With a token configured, the workspace path turns a successful
  response into one result for each distinct file tag of its points, in the
  order in which the tags first appear, and each result holds exactly the
  normalized points of its tag, in source order.
\<close>

theorem workspace_groups_by_file:
  assumes "validateToken st env = Inr tok"
  shows "\<exists>results. analyzeWorkspace st env (Inr r) clock = Inr results \<and>
     map result_file results = first_appearances (map api_file (analysis_inferencePoints r)) \<and>
     distinct (map result_file results) \<and>
     (\<forall>res \<in> set results.
        inferencePoints res =
          map transformInferencePoint
            (filter (\<lambda>p. api_file p = result_file res) (analysis_inferencePoints r)))"
proof -
  obtain results where run: "analyzeWorkspace st env (Inr r) clock = Inr results"
    using assms by (simp add: analyzeWorkspace_def)
  have entries: "map entry_of results = grouped (analysis_inferencePoints r)"
    using run by (rule analyzeWorkspace_entries)
  have files: "map result_file results =
      first_appearances (map api_file (analysis_inferencePoints r))"
    using entries_files [of results] by (simp add: entries grouped_keys)
  have "inferencePoints res =
      map transformInferencePoint
        (filter (\<lambda>p. api_file p = result_file res) (analysis_inferencePoints r))"
    if "res \<in> set results" for res
    using entries_member [OF that] grouped_member [of "result_file res" "inferencePoints res"]
    by (simp add: entries)
  with run files show ?thesis
    by simp
qed

theorem workspace_groups_by_file_witness:
  "validateToken (Some ''tok'') None = Inr ''tok'' \<and>
   (\<exists>results.
      analyzeWorkspace (Some ''tok'') None
        (Inr (sample_response [''b.ts'', ''c.ts'', ''b.ts''])) (\<lambda>n. ''t'') = Inr results \<and>
      map result_file results = [''b.ts'', ''c.ts''] \<and>
      map (\<lambda>res. length (inferencePoints res)) results = [2, 1])"
proof -
  obtain results where
    run: "analyzeWorkspace (Some ''tok'') None
        (Inr (sample_response [''b.ts'', ''c.ts'', ''b.ts''])) (\<lambda>n. ''t'') = Inr results" and
    files: "map result_file results =
        first_appearances (map api_file
          (analysis_inferencePoints (sample_response [''b.ts'', ''c.ts'', ''b.ts''])))" and
    points: "\<forall>res \<in> set results.
        inferencePoints res =
          map transformInferencePoint
            (filter (\<lambda>p. api_file p = result_file res)
              (analysis_inferencePoints (sample_response [''b.ts'', ''c.ts'', ''b.ts''])))"
    using workspace_groups_by_file [OF validateToken_settings] by blast
  have f2: "map result_file results = [''b.ts'', ''c.ts'']"
    using files by (simp add: sample_response_def sparse_point_def)
  then obtain r1 r2 where rs: "results = [r1, r2]" "result_file r1 = ''b.ts''"
      "result_file r2 = ''c.ts''"
    by (auto simp add: map_eq_Cons_conv)
  have "length (inferencePoints r1) = 2" "length (inferencePoints r2) = 1"
    using points rs by (simp_all add: sample_response_def sparse_point_def)
  with run f2 rs validateToken_settings show ?thesis
    by simp
qed

section \<open>Points and the file of their result\<close>

lemma endsWith_suffix: "endsWith s t \<longleftrightarrow> suffix t s"
proof
  assume "endsWith s t"
  then have "s = take (length s - length t) s @ t"
    by (metis append_take_drop_id endsWith_def)
  then show "suffix t s"
    by (rule suffixI)
next
  assume "suffix t s"
  then obtain zs where "s = zs @ t"
    by (auto simp add: suffix_def)
  then show "endsWith s t"
    by (simp add: endsWith_def)
qed

lemma split_not_Nil [simp]: "split sep s \<noteq> []"
  by (induction s) (auto split: list.splits)

lemma split_no_sep: "sep \<notin> set s \<Longrightarrow> split sep s = [s]"
  by (induction s) auto

lemma length_split: "length (split sep s) = Suc (length (filter (\<lambda>c. c = sep) s))"
  by (induction s) (auto split: list.splits)

lemma split_two_pieces: "split sep (d @ sep # b) \<noteq> [piece]"
proof
  assume "split sep (d @ sep # b) = [piece]"
  then have "length (split sep (d @ sep # b)) = 1"
    by simp
  then show False
    by (simp add: length_split)
qed

lemma last_split_append:
  "last (split sep (d @ sep # b)) = last (split sep b)"
proof (induction d)
  case Nil
  show ?case by simp
next
  case (Cons a d)
  show ?case
  proof (cases "a = sep")
    case True
    then show ?thesis
      using Cons.IH by simp
  next
    case False
    obtain piece pieces where sp: "split sep (d @ sep # b) = piece # pieces"
      by (cases "split sep (d @ sep # b)") simp_all
    have "pieces \<noteq> []"
      using split_two_pieces [of sep d b piece] sp by auto
    then show ?thesis
      using False Cons.IH sp by simp
  qed
qed

lemma leaf_name_plain: "CHR ''/'' \<notin> set b \<Longrightarrow> leaf_name b = b"
  by (simp add: leaf_name_def pop_def or_else_def split_no_sep)

lemma leaf_name_path: "CHR ''/'' \<notin> set b \<Longrightarrow> leaf_name (d @ ''/'' @ b) = b"
  using last_split_append [of "CHR ''/''" d b]
  by (simp add: leaf_name_def pop_def or_else_def split_no_sep)

lemma analyzeFile_result:
  "analyzeFile st env fileName resp clock = Inr res \<Longrightarrow>
   \<exists>r. resp = Inr r \<and> res = transformApiResponse (clock 0) fileName r"
  by (auto simp add: analyzeFile_def split: sum.splits)

lemma transformApiResponse_fields:
  "result_file (transformApiResponse now fileName r) = fileName"
  "inferencePoints (transformApiResponse now fileName r) =
     map transformInferencePoint
       (filter (\<lambda>p. api_file p = fileName \<or> endsWith (api_file p) (leaf_name fileName))
          (analysis_inferencePoints r))"
  by (simp_all add: transformApiResponse_def createResultFromPoints_fields)

lemma analyzeWorkspace_result:
  "analyzeWorkspace st env resp clock = Inr results \<Longrightarrow>
   \<exists>r. resp = Inr r \<and> map entry_of results = grouped (analysis_inferencePoints r)"
  by (cases resp) (auto simp add: analyzeWorkspace_def workspace_entries split: sum.splits)

text \<open>
  Claim C8. In a result of the single-file path every point's file is the
  result's file or ends with the last \<open>/\<close>-separated piece of the result's
  file (\<open>leaf_name_path\<close> and \<open>leaf_name_plain\<close> say what that piece is); in a
  result of the workspace path every point's file is the result's file.
\<close>

theorem result_points_match_file:
  "(analyzeFile st env fileName resp clock = Inr res \<longrightarrow>
      result_file res = fileName \<and>
      (\<forall>ip \<in> set (inferencePoints res).
         point_file ip = result_file res \<or>
         suffix (leaf_name (result_file res)) (point_file ip))) \<and>
   (analyzeWorkspace st env resp clock = Inr results \<longrightarrow>
      (\<forall>r \<in> set results. \<forall>ip \<in> set (inferencePoints r). point_file ip = result_file r))"
proof (intro conjI impI)
  assume "analyzeFile st env fileName resp clock = Inr res"
  then obtain r :: ApiAnalysisResponse
    where res: "res = transformApiResponse (clock 0) fileName r"
    using analyzeFile_result [of st env fileName resp clock res] by blast
  show "result_file res = fileName"
    by (simp add: res transformApiResponse_fields)
  show "\<forall>ip \<in> set (inferencePoints res).
      point_file ip = result_file res \<or> suffix (leaf_name (result_file res)) (point_file ip)"
    by (auto simp add: res transformApiResponse_fields endsWith_suffix)
next
  assume "analyzeWorkspace st env resp clock = Inr results"
  then obtain r :: ApiAnalysisResponse
    where entries: "map entry_of results = grouped (analysis_inferencePoints r)"
    using analyzeWorkspace_result [of st env resp clock results] by blast
  show "\<forall>r \<in> set results. \<forall>ip \<in> set (inferencePoints r). point_file ip = result_file r"
  proof (intro ballI)
    fix res ip
    assume "res \<in> set results" and ip: "ip \<in> set (inferencePoints res)"
    then have "inferencePoints res =
        map transformInferencePoint
          (filter (\<lambda>p. api_file p = result_file res) (analysis_inferencePoints r))"
      using entries_member [of res results]
        grouped_member [of "result_file res" "inferencePoints res"]
      by (simp add: entries)
    with ip show "point_file ip = result_file res"
      by auto
  qed
qed

theorem result_points_match_file_witness:
  "(\<exists>res. analyzeFile (Some ''tok'') None ''/w/src/b.ts''
            (Inr (sample_response [''src/b.ts'', ''c.ts'', ''/w/src/b.ts''])) (\<lambda>n. ''t'')
            = Inr res \<and>
          result_file res = ''/w/src/b.ts'' \<and>
          map point_file (inferencePoints res) = [''src/b.ts'', ''/w/src/b.ts''] \<and>
          list_all (\<lambda>ip. point_file ip = result_file res \<or>
                      suffix (leaf_name (result_file res)) (point_file ip))
            (inferencePoints res)) \<and>
   (\<exists>results. analyzeWorkspace (Some ''tok'') None
            (Inr (sample_response [''b.ts'', ''c.ts'', ''b.ts''])) (\<lambda>n. ''t'')
            = Inr results \<and>
          results \<noteq> [] \<and>
          list_all (\<lambda>r. list_all (\<lambda>ip. point_file ip = result_file r) (inferencePoints r))
            results)"
proof -
  let ?resp = "sample_response [''src/b.ts'', ''c.ts'', ''/w/src/b.ts'']"
  let ?wresp = "sample_response [''b.ts'', ''c.ts'', ''b.ts'']"
  let ?res = "transformApiResponse ''t'' ''/w/src/b.ts'' ?resp"
  let ?results = "build_results (\<lambda>n. ''t'') (api_credits ?wresp)
      (group_points [] (analysis_inferencePoints ?wresp)) []"
  have leaf: "leaf_name ''/w/src/b.ts'' = ''b.ts''"
    using leaf_name_path [of "''b.ts''" "''/w/src''"] by simp
  have run: "analyzeFile (Some ''tok'') None ''/w/src/b.ts'' (Inr ?resp) (\<lambda>n. ''t'') = Inr ?res"
    by (simp add: analyzeFile_def validateToken_settings)
  have wrun: "analyzeWorkspace (Some ''tok'') None (Inr ?wresp) (\<lambda>n. ''t'') = Inr ?results"
    by (simp add: analyzeWorkspace_def validateToken_settings)
  have files: "map point_file (inferencePoints ?res) = [''src/b.ts'', ''/w/src/b.ts'']"
    by (simp add: transformApiResponse_fields leaf sample_response_def sparse_point_def
        endsWith_def comp_def)
  have "map entry_of ?results = grouped (analysis_inferencePoints ?wresp)"
    by (rule workspace_entries)
  then have nonempty: "?results \<noteq> []"
    by (auto simp add: grouped_def sample_response_def)
  have single: "\<forall>ip \<in> set (inferencePoints ?res).
      point_file ip = result_file ?res \<or>
      suffix (leaf_name (result_file ?res)) (point_file ip)"
    using result_points_match_file [of "Some ''tok''" None "''/w/src/b.ts''" "Inr ?resp"
        "\<lambda>n. ''t''" ?res] run
    by blast
  have workspace: "\<forall>r \<in> set ?results. \<forall>ip \<in> set (inferencePoints r).
      point_file ip = result_file r"
    using result_points_match_file [of "Some ''tok''" None "''/w/src/b.ts''" "Inr ?wresp"
        "\<lambda>n. ''t''" ?res ?results] wrun
    by blast
  have name: "result_file ?res = ''/w/src/b.ts''"
    by (rule transformApiResponse_fields(1))
  have points: "list_all (\<lambda>ip. point_file ip = result_file ?res \<or>
                  suffix (leaf_name (result_file ?res)) (point_file ip))
        (inferencePoints ?res)"
    unfolding list_all_iff by (rule single)
  have groups: "list_all (\<lambda>r. list_all (\<lambda>ip. point_file ip = result_file r) (inferencePoints r))
        ?results"
    unfolding list_all_iff by (rule workspace)
  have first: "\<exists>res. analyzeFile (Some ''tok'') None ''/w/src/b.ts'' (Inr ?resp) (\<lambda>n. ''t'')
        = Inr res \<and>
      result_file res = ''/w/src/b.ts'' \<and>
      map point_file (inferencePoints res) = [''src/b.ts'', ''/w/src/b.ts''] \<and>
      list_all (\<lambda>ip. point_file ip = result_file res \<or>
                  suffix (leaf_name (result_file res)) (point_file ip))
        (inferencePoints res)"
    by (rule exI [of _ ?res]) (intro conjI run name files points)
  have second: "\<exists>results. analyzeWorkspace (Some ''tok'') None (Inr ?wresp) (\<lambda>n. ''t'')
        = Inr results \<and>
      results \<noteq> [] \<and>
      list_all (\<lambda>r. list_all (\<lambda>ip. point_file ip = result_file r) (inferencePoints r))
        results"
    by (rule exI [of _ ?results]) (intro conjI wrun nonempty groups)
  from first second show ?thesis ..
qed

text \<open>
  Claim C10. Every result of the workspace path holds at least one point, and
  \<open>totalPoints\<close> is their number; the files of the results are exactly the file
  tags that occur in the response, so a file with no point in the response gets
  no result.
\<close>

theorem workspace_results_nonempty:
  assumes "analyzeWorkspace st env (Inr r) clock = Inr results"
  shows "(\<forall>res \<in> set results.
            1 \<le> totalPoints (summary res) \<and>
            totalPoints (summary res) = length (inferencePoints res)) \<and>
         set (map result_file results) = set (map api_file (analysis_inferencePoints r))"
proof -
  have entries: "map entry_of results = grouped (analysis_inferencePoints r)"
    using assms by (rule analyzeWorkspace_entries)
  have results: "results =
      build_results clock (api_credits r) (group_points [] (analysis_inferencePoints r)) []"
    using assms by (auto simp add: analyzeWorkspace_def split: sum.splits)
  have "map result_file results = first_appearances (map api_file (analysis_inferencePoints r))"
    using entries_files [of results] by (simp add: entries grouped_keys)
  then have files:
    "set (map result_file results) = set (map api_file (analysis_inferencePoints r))"
    by (simp only: first_appearances_set)
  have "1 \<le> totalPoints (summary res) \<and>
      totalPoints (summary res) = length (inferencePoints res)"
    if "res \<in> set results" for res
  proof -
    have "res \<in> set (build_results clock (api_credits r)
        (group_points [] (analysis_inferencePoints r)) [])"
      using that by (simp only: results [symmetric])
    then have "res \<in> set [] \<or>
        (\<exists>t f ps. ps \<noteq> [] \<and> res = createResultFromPoints t f ps (api_credits r))"
      by (rule build_results_members)
    then obtain t f ps
      where "ps \<noteq> []" "res = createResultFromPoints t f ps (api_credits r)"
      by auto
    then show ?thesis
      by (cases ps) (simp_all add: createResultFromPoints_fields)
  qed
  with files show ?thesis
    by blast
qed

theorem workspace_results_nonempty_witness:
  "(\<exists>results. analyzeWorkspace (Some ''tok'') None
            (Inr (sample_response [''b.ts'', ''c.ts'', ''b.ts''])) (\<lambda>n. ''t'')
            = Inr results \<and>
          results \<noteq> [] \<and>
          list_all (\<lambda>res. 1 \<le> totalPoints (summary res) \<and>
                       totalPoints (summary res) = length (inferencePoints res)) results \<and>
          set (map result_file results) = {''b.ts'', ''c.ts''}) \<and>
   analyzeWorkspace (Some ''tok'') None (Inr (sample_response [])) (\<lambda>n. ''t'') = Inr []"
proof -
  let ?wresp = "sample_response [''b.ts'', ''c.ts'', ''b.ts'']"
  let ?results = "build_results (\<lambda>n. ''t'') (api_credits ?wresp)
      (group_points [] (analysis_inferencePoints ?wresp)) []"
  have wrun: "analyzeWorkspace (Some ''tok'') None (Inr ?wresp) (\<lambda>n. ''t'') = Inr ?results"
    by (simp add: analyzeWorkspace_def validateToken_settings)
  have empty: "analyzeWorkspace (Some ''tok'') None (Inr (sample_response [])) (\<lambda>n. ''t'')
      = Inr []"
    by (simp add: analyzeWorkspace_def validateToken_settings sample_response_def)
  have tags: "set (map api_file (analysis_inferencePoints ?wresp)) = {''b.ts'', ''c.ts''}"
    by (auto simp add: sample_response_def sparse_point_def)
  have facts: "(\<forall>res \<in> set ?results.
        1 \<le> totalPoints (summary res) \<and>
        totalPoints (summary res) = length (inferencePoints res)) \<and>
      set (map result_file ?results) = set (map api_file (analysis_inferencePoints ?wresp))"
    using wrun by (rule workspace_results_nonempty)
  have totals: "list_all (\<lambda>res. 1 \<le> totalPoints (summary res) \<and>
                   totalPoints (summary res) = length (inferencePoints res)) ?results"
    unfolding list_all_iff by (rule conjunct1 [OF facts])
  have files: "set (map result_file ?results) = {''b.ts'', ''c.ts''}"
    by (rule trans [OF conjunct2 [OF facts] tags])
  have "map entry_of ?results = grouped (analysis_inferencePoints ?wresp)"
    by (rule workspace_entries)
  then have nonempty: "?results \<noteq> []"
    by (auto simp add: grouped_def sample_response_def)
  have first: "\<exists>results. analyzeWorkspace (Some ''tok'') None (Inr ?wresp) (\<lambda>n. ''t'')
        = Inr results \<and>
      results \<noteq> [] \<and>
      list_all (\<lambda>res. 1 \<le> totalPoints (summary res) \<and>
                   totalPoints (summary res) = length (inferencePoints res)) results \<and>
      set (map result_file results) = {''b.ts'', ''c.ts''}"
    by (rule exI [of _ ?results]) (intro conjI wrun nonempty totals files)
  from first empty show ?thesis ..
qed

end
